theory Spec2Isabelle
  imports Main
begin

section \<open>Go values shared by both packages\<close>

text \<open>
  A Go \<^verbatim>\<open>error\<close> is an interface value that is either \<^verbatim>\<open>nil\<close> or carries a message.
  A non-nil error is \<open>GoError msg\<close>; a possibly-nil error is a \<open>go_error option\<close>
  with \<open>None\<close> for \<^verbatim>\<open>nil\<close>.
\<close>

datatype go_error = GoError string

text \<open>\<^verbatim>\<open>errors.New(msg)\<close>: a fresh non-nil error with that message.\<close>

definition errors_New :: "string \<Rightarrow> go_error" where
  "errors_New msg = GoError msg"

text \<open>
  The verb \<^verbatim>\<open>%s\<close> of package fmt applied to an error operand: the error's message, and
  for a nil operand the marker fmt prints for a nil interface.
\<close>

fun fmt_s :: "go_error option \<Rightarrow> string" where
  "fmt_s None = ''%!s(<nil>)''"
| "fmt_s (Some (GoError msg)) = msg"

section \<open>Package strings, on ASCII text\<close>

text \<open>
  Strings are byte lists. The three library functions below are \<^verbatim>\<open>strings.ToLower\<close>,
  \<^verbatim>\<open>strings.TrimSpace\<close> and \<^verbatim>\<open>strings.Split\<close> (with a one-byte separator) as they
  act on ASCII text, which is what the probed commands print. On other text Go works on
  runes (it lowercases letters and trims spaces beyond ASCII); here such bytes are left
  as they are.
\<close>

definition lower_of :: "char \<Rightarrow> char" where
  "lower_of c =
     (case map_of (zip ''ABCDEFGHIJKLMNOPQRSTUVWXYZ'' ''abcdefghijklmnopqrstuvwxyz'') c of
        Some d \<Rightarrow> d
      | None \<Rightarrow> c)"

definition ToLower :: "string \<Rightarrow> string" where
  "ToLower s = map lower_of s"

definition isSpace :: "char \<Rightarrow> bool" where
  "isSpace c = (c \<in> set [CHR 0x09, CHR 0x0A, CHR 0x0B, CHR 0x0C, CHR 0x0D, CHR 0x20])"

definition TrimSpace :: "string \<Rightarrow> string" where
  "TrimSpace s = rev (dropWhile isSpace (rev (dropWhile isSpace s)))"

text \<open>
  \<^verbatim>\<open>strings.Split(s, sep)\<close> for a separator of one byte: the pieces between the
  separators, so at least one piece (the whole string when the separator is absent).
\<close>

fun Split :: "string \<Rightarrow> char \<Rightarrow> string list" where
  "Split [] sep = [[]]"
| "Split (c # cs) sep =
     (if c = sep then [] # Split cs sep
      else (case Split cs sep of
              [] \<Rightarrow> [[c]]
            | p # ps \<Rightarrow> (c # p) # ps))"

section \<open>Package wsl: the command execution port\<close>

text \<open>
  \<^verbatim>\<open>client.WslCommand(ctx, c)\<close> builds a command handle for the command string \<open>c\<close>; the
  type \<^verbatim>\<open>Distro\<close> and the handle are declared outside the files at hand, so the port is
  the record of what each operation of the handle answers for a command string.
  \<open>Output\<close> is \<^verbatim>\<open>cmd.Output()\<close> (the captured bytes and the error, both returned),
  \<open>StdinPipe\<close> and \<open>Start\<close> the errors of \<^verbatim>\<open>cmd.StdinPipe()\<close> and \<^verbatim>\<open>cmd.Start()\<close>,
  \<open>Copy\<close> the error of \<^verbatim>\<open>io.Copy\<close> into the pipe of that command for given file
  contents, and \<open>Wait\<close> the error of \<^verbatim>\<open>cmd.Wait()\<close> (which carries the exit status).
  Every operation of the port is taken to return; each function below runs any one
  command string at most once, so a port whose answers change over time is covered.
\<close>

record Distro =
  Output :: "string \<Rightarrow> string \<times> go_error option"
  StdinPipe :: "string \<Rightarrow> go_error option"
  Start :: "string \<Rightarrow> go_error option"
  Copy :: "string \<Rightarrow> string \<Rightarrow> go_error option"
  Wait :: "string \<Rightarrow> go_error option"

subsection \<open>GetWshPath\<close>

definition defaultPath :: string where
  "defaultPath = ''~/.waveterm/bin/wsh''"

text \<open>The byte 0x5C, the backslash of the Windows paths.\<close>

definition bslash :: string where
  "bslash = [CHR 0x5C]"

definition wshCmdProbe :: string where
  "wshCmdProbe =
     ''(dir 2>&1 *``|echo %userprofile%'' @ bslash @ ''.waveterm%'' @ bslash @ ''.waveterm''
     @ bslash @ ''bin'' @ bslash @ ''wsh.exe);&<# rem #>echo none''"

definition GetWshPath :: "Distro \<Rightarrow> string" where
  "GetWshPath client =
     (let (out, whichErr) = Output client ''which wsh'' in
      if whichErr = None then TrimSpace out
      else
        let (out, whereErr) = Output client ''where.exe wsh'' in
        if whereErr = None then TrimSpace out
        else
          let (out, cmdErr) = Output client wshCmdProbe in
          if cmdErr = None \<and> TrimSpace out \<noteq> ''none'' then TrimSpace out
          else defaultPath)"

subsection \<open>hasBashInstalled\<close>

definition hasBashInstalled :: "Distro \<Rightarrow> bool \<times> go_error option" where
  "hasBashInstalled client =
     (let (out, whichErr) = Output client ''which bash'' in
      if whichErr = None \<and> length out \<noteq> 0 then (True, None)
      else
        let (out, whereErr) = Output client ''where.exe bash'' in
        if whereErr = None \<and> length out \<noteq> 0 then (True, None)
        else (False, None))"

subsection \<open>GetClientOs and GetClientArch\<close>

definition osErrorf :: "go_error option \<Rightarrow> go_error option \<Rightarrow> go_error option \<Rightarrow> go_error" where
  "osErrorf unixErr cmdErr psErr =
     GoError (''unable to determine os: {unix: '' @ fmt_s unixErr @ '', cmd: '' @ fmt_s cmdErr
              @ '', powershell: '' @ fmt_s psErr @ ''}'')"

definition GetClientOs :: "Distro \<Rightarrow> string \<times> go_error option" where
  "GetClientOs client =
     (let (out, unixErr) = Output client ''uname -s'' in
      if unixErr = None then
        (let formatted = ToLower out; formatted = TrimSpace formatted in (formatted, None))
      else
        let (out, cmdErr) = Output client ''echo %OS%'' in
        if cmdErr = None \<and> TrimSpace out \<noteq> ''%OS%'' then
          (let formatted = ToLower out; formatted = TrimSpace formatted
           in (hd (Split formatted (CHR ''_'')), None))
        else
          let (out, psErr) = Output client ''echo $env:OS'' in
          if psErr = None \<and> TrimSpace out \<noteq> ''$env:OS'' then
            (let formatted = ToLower out; formatted = TrimSpace formatted
             in (hd (Split formatted (CHR ''_'')), None))
          else ('''', Some (osErrorf unixErr cmdErr psErr)))"

definition archErrorf :: "go_error option \<Rightarrow> go_error option \<Rightarrow> go_error option \<Rightarrow> go_error" where
  "archErrorf unixErr cmdErr psErr =
     GoError (''unable to determine architecture: {unix: '' @ fmt_s unixErr @ '', cmd: ''
              @ fmt_s cmdErr @ '', powershell: '' @ fmt_s psErr @ ''}'')"

definition GetClientArch :: "Distro \<Rightarrow> string \<times> go_error option" where
  "GetClientArch client =
     (let (out, unixErr) = Output client ''uname -m'' in
      if unixErr = None then
        (let formatted = ToLower out; formatted = TrimSpace formatted
         in if formatted = ''x86_64'' then (''x64'', None) else (formatted, None))
      else
        let (out, cmdErr) = Output client ''echo %PROCESSOR_ARCHITECTURE%'' in
        if cmdErr = None \<and> TrimSpace out \<noteq> ''%PROCESSOR_ARCHITECTURE%'' then
          (let formatted = ToLower out in (TrimSpace formatted, None))
        else
          let (out, psErr) = Output client ''echo $env:PROCESSOR_ARCHITECTURE'' in
          if psErr = None \<and> TrimSpace out \<noteq> ''$env:PROCESSOR_ARCHITECTURE'' then
            (let formatted = ToLower out in (TrimSpace formatted, None))
          else ('''', Some (archErrorf unixErr cmdErr psErr)))"

subsection \<open>CpHostToRemote\<close>

text \<open>
  The two raw templates. Each line of the Go raw string ends in a space, a backslash and
  a newline (\<open>cont\<close>); the bash variant wraps the body in single quotes (byte 0x27).
\<close>

definition cont :: string where
  "cont = '' '' @ bslash @ [CHR 0x0A]"

definition squote :: string where
  "squote = [CHR 0x27]"

definition installTemplateRawBash :: string where
  "installTemplateRawBash =
     ''bash -c '' @ squote @ cont
     @ ''mkdir -p {{.installDir}};'' @ cont
     @ ''cat > {{.tempPath}};'' @ cont
     @ ''mv {{.tempPath}} {{.installPath}};'' @ cont
     @ ''chmod a+x {{.installPath}};'' @ squote @ cont"

definition installTemplateRawDefault :: string where
  "installTemplateRawDefault =
     cont
     @ ''mkdir -p {{.installDir}};'' @ cont
     @ ''cat > {{.tempPath}};'' @ cont
     @ ''mv {{.tempPath}} {{.installPath}};'' @ cont
     @ ''chmod a+x {{.installPath}};'' @ cont"

text \<open>
  The host side of the installer: the standard-library functions it calls, taken as
  parameters. \<open>os_Open\<close> answers the error of \<^verbatim>\<open>os.Open\<close> or the contents of the file;
  \<open>template_Execute\<close> is parsing and executing an \<^verbatim>\<open>html/template\<close> on a word map.
\<close>

record Host =
  filepath_Dir :: "string \<Rightarrow> string"
  filepath_ToSlash :: "string \<Rightarrow> string"
  template_Execute :: "string \<Rightarrow> (string \<times> string) list \<Rightarrow> string"
  os_Open :: "string \<Rightarrow> go_error + string"

definition openErrorf :: "string \<Rightarrow> go_error \<Rightarrow> go_error" where
  "openErrorf sourcePath err =
     GoError (''cannot open local file '' @ sourcePath @ '' to send to host: ''
              @ fmt_s (Some err))"

text \<open>
  Lines 169 to 217 of the source, everything after the bash probe: the command rendered
  from the selected template (lines 169 to 187), then the pipe, the start, the local
  file, the copy and the wait. The results of the copy and of the wait are computed and
  dropped, as the source drops them.
\<close>

definition renderInstallCmd :: "Host \<Rightarrow> bool \<Rightarrow> string \<Rightarrow> string" where
  "renderInstallCmd host bashInstalled destPath =
     (let selectedTemplateRaw =
            (if bashInstalled then installTemplateRawBash else installTemplateRawDefault);
          installWords =
            [(''installDir'', filepath_ToSlash host (filepath_Dir host destPath)),
             (''tempPath'', destPath @ ''.temp''),
             (''installPath'', destPath)]
      in template_Execute host selectedTemplateRaw installWords)"

definition CpHostToRemote_install ::
  "Host \<Rightarrow> Distro \<Rightarrow> bool \<Rightarrow> string \<Rightarrow> string \<Rightarrow> go_error option" where
  "CpHostToRemote_install host client bashInstalled sourcePath destPath =
     (let installCmd = renderInstallCmd host bashInstalled destPath
      in case StdinPipe client installCmd of
           Some err \<Rightarrow> Some err
         | None \<Rightarrow>
             (case Start client installCmd of
                Some err \<Rightarrow> Some err
              | None \<Rightarrow>
                  (case os_Open host sourcePath of
                     Inl err \<Rightarrow> Some (openErrorf sourcePath err)
                   | Inr input \<Rightarrow>
                       (let copied = Copy client installCmd input;
                            waited = Wait client installCmd
                        in None))))"

definition CpHostToRemote :: "Host \<Rightarrow> Distro \<Rightarrow> string \<Rightarrow> string \<Rightarrow> go_error option" where
  "CpHostToRemote host client sourcePath destPath =
     (let (bashInstalled, err) = hasBashInstalled client in
      if err \<noteq> None then err
      else CpHostToRemote_install host client bashInstalled sourcePath destPath)"

section \<open>Package wshclient\<close>

text \<open>
  \<^verbatim>\<open>wshrpc.RpcOpts\<close> is declared outside the files at hand; the helpers read its field
  \<open>NoResponse\<close> only. \<^verbatim>\<open>&wshrpc.RpcOpts{}\<close> is the record of zero values.
\<close>

record RpcOpts =
  NoResponse :: bool
  Timeout :: int

definition zeroRpcOpts :: RpcOpts where
  "zeroRpcOpts = \<lparr>NoResponse = False, Timeout = 0\<rparr>"

text \<open>
  The transport \<^verbatim>\<open>*wshutil.WshRpc\<close>, with payloads \<open>'d\<close>, response envelopes \<open>'r\<close> and
  request handlers in state \<open>'h\<close>. Each method answers what Go returns, value and error
  together. \<open>ResponseDone\<close> and \<open>NextResponse\<close> are the two methods of the request
  handler; both may move the handler's state.
\<close>

record ('d, 'r, 'h) WshRpc =
  SendCommand :: "string \<Rightarrow> 'd \<Rightarrow> RpcOpts \<Rightarrow> go_error option"
  SendRpcRequest :: "string \<Rightarrow> 'd \<Rightarrow> RpcOpts \<Rightarrow> 'r \<times> go_error option"
  SendComplexRequest :: "string \<Rightarrow> 'd \<Rightarrow> RpcOpts \<Rightarrow> 'h \<times> go_error option"
  ResponseDone :: "'h \<Rightarrow> bool \<times> 'h"
  NextResponse :: "'h \<Rightarrow> ('r \<times> go_error option) \<times> 'h"

text \<open>
  A call either returns or panics; dereferencing a nil pointer panics. The log lists the
  calls made to the transport and to the decoder, in order.
\<close>

datatype 'a outcome = Panic | Return 'a

definition deref :: "'p option \<Rightarrow> ('p \<Rightarrow> 'b outcome) \<Rightarrow> 'b outcome" where
  "deref p k = (case p of None \<Rightarrow> Panic | Some v \<Rightarrow> k v)"

datatype port_call = SendCommand_call | SendRpcRequest_call | ReUnmarshal_call

definition nilWshRpc :: go_error where
  "nilWshRpc = errors_New ''nil wshrpc passed to wshclient''"

text \<open>
  \<^verbatim>\<open>utilfn.ReUnmarshal(&respData, resp)\<close> is outside the files at hand: the parameter
  \<open>ReUnmarshal\<close> takes the value behind the pointer and the envelope, and answers the
  value left behind the pointer and the error. \<open>zero\<close> is the zero value of \<open>T\<close>.
\<close>

definition sendRpcRequestCallHelper ::
  "('a \<Rightarrow> 'r \<Rightarrow> 'a \<times> go_error option) \<Rightarrow> 'a \<Rightarrow> ('d, 'r, 'h) WshRpc option \<Rightarrow> string \<Rightarrow> 'd
     \<Rightarrow> RpcOpts option \<Rightarrow> (('a \<times> go_error option) \<times> port_call list) outcome" where
  "sendRpcRequestCallHelper ReUnmarshal zero w command data opts =
     (let opts = (if opts = None then Some zeroRpcOpts else opts);
          respData = zero
      in if w = None then Return ((respData, Some nilWshRpc), [])
         else
           deref opts (\<lambda>ro.
             if NoResponse ro then
               deref w (\<lambda>t.
                 let err = SendCommand t command data ro in
                 if err \<noteq> None then Return ((respData, err), [SendCommand_call])
                 else Return ((respData, None), [SendCommand_call]))
             else
               deref w (\<lambda>t.
                 let (resp, err) = SendRpcRequest t command data ro in
                 if err \<noteq> None then Return ((respData, err), [SendRpcRequest_call])
                 else
                   let (respData, err) = ReUnmarshal respData resp in
                   if err \<noteq> None
                   then Return ((respData, err), [SendRpcRequest_call, ReUnmarshal_call])
                   else Return ((respData, None), [SendRpcRequest_call, ReUnmarshal_call]))))"

subsection \<open>The response stream\<close>

text \<open>
  A value on the channel, and what a goroutine does to the channel: it sends a value or
  closes the channel. The history of a channel with one producer is the list of these
  events in order; the consumer receives the sent values in that order. The channel has
  no buffer, so a send waits for the consumer: the histories below are those of a
  consumer that keeps receiving.
\<close>

record 'a RespOrErrorUnion =
  Response :: 'a
  Error :: "go_error option"

datatype 'a chan_event = Send "'a RespOrErrorUnion" | Close

definition rtnErr :: "'a \<Rightarrow> go_error option \<Rightarrow> 'a chan_event list" where
  "rtnErr zero err = [Send \<lparr>Response = zero, Error = err\<rparr>, Close]"

text \<open>
  The goroutine of lines 61 to 80. The loop has no bound of its own, so it runs on fuel:
  \<open>stream_loop \<dots> n h\<close> is what the goroutine has done to the channel after at most \<open>n\<close>
  rounds from handler state \<open>h\<close>. Leaving the loop runs the deferred close. A history
  without a close is that of a goroutine still in its loop.
\<close>

fun stream_loop ::
  "('a \<Rightarrow> 'r \<Rightarrow> 'a \<times> go_error option) \<Rightarrow> 'a \<Rightarrow> ('d, 'r, 'h) WshRpc \<Rightarrow> nat \<Rightarrow> 'h
     \<Rightarrow> 'a chan_event list" where
  "stream_loop ReUnmarshal zero t 0 h = []"
| "stream_loop ReUnmarshal zero t (Suc n) h =
     (let (done, h1) = ResponseDone t h in
      if done then [Close]
      else
        let ((resp, err), h2) = NextResponse t h1 in
        if err \<noteq> None then [Send \<lparr>Response = zero, Error = err\<rparr>, Close]
        else
          let (respData, err) = ReUnmarshal zero resp in
          if err \<noteq> None then [Send \<lparr>Response = zero, Error = err\<rparr>, Close]
          else Send \<lparr>Response = respData, Error = None\<rparr>
                 # stream_loop ReUnmarshal zero t n h2)"

text \<open>
  The stream helper hands its options on without reading a field, so the nil check of
  lines 48 to 50 is the choice of the record the transport is given. \<open>opts\<close> being nil
  and the transport being nil are both settled before the request is sent.
\<close>

definition sendRpcRequestResponseStreamHelper ::
  "('a \<Rightarrow> 'r \<Rightarrow> 'a \<times> go_error option) \<Rightarrow> 'a \<Rightarrow> ('d, 'r, 'h) WshRpc option \<Rightarrow> string \<Rightarrow> 'd
     \<Rightarrow> RpcOpts option \<Rightarrow> nat \<Rightarrow> 'a chan_event list" where
  "sendRpcRequestResponseStreamHelper ReUnmarshal zero w command data opts fuel =
     (let opts = (case opts of None \<Rightarrow> zeroRpcOpts | Some ro \<Rightarrow> ro) in
      case w of
        None \<Rightarrow> rtnErr zero (Some nilWshRpc)
      | Some t \<Rightarrow>
          (let (reqHandler, err) = SendComplexRequest t command data opts in
           if err \<noteq> None then rtnErr zero err
           else stream_loop ReUnmarshal zero t fuel reqHandler))"

text \<open>The values a consumer receives from a history, in order.\<close>

fun delivered :: "'a chan_event list \<Rightarrow> 'a RespOrErrorUnion list" where
  "delivered [] = []"
| "delivered (Send u # evs) = u # delivered evs"
| "delivered (Close # evs) = delivered evs"

text \<open>
  A handler that, from state \<open>h\<close>, is not done and hands out the envelopes \<open>rs\<close> one by
  one without error, and then reports done.
\<close>

fun produces :: "('d, 'r, 'h) WshRpc \<Rightarrow> 'h \<Rightarrow> 'r list \<Rightarrow> bool" where
  "produces t h [] = fst (ResponseDone t h)"
| "produces t h (r # rs) =
     (let (done, h1) = ResponseDone t h in
      if done then False
      else
        let ((resp, err), h2) = NextResponse t h1 in
        err = None \<and> resp = r \<and> produces t h2 rs)"

text \<open>
  How the loop of lines 63 to 79 stands after at most \<open>n\<close> rounds, read off the handler
  and the decoder alone: it has left because \<open>ResponseDone\<close> reported true (\<open>Done\<close>), it
  has left on the error of \<open>NextResponse\<close> or of the decoder (\<open>Failed\<close> with that error),
  or it is still running.
\<close>

datatype ending = Running | Done | Failed go_error

fun loop_end ::
  "('a \<Rightarrow> 'r \<Rightarrow> 'a \<times> go_error option) \<Rightarrow> 'a \<Rightarrow> ('d, 'r, 'h) WshRpc \<Rightarrow> nat \<Rightarrow> 'h \<Rightarrow> ending"
  where
  "loop_end ReUnmarshal zero t 0 h = Running"
| "loop_end ReUnmarshal zero t (Suc n) h =
     (let (done, h1) = ResponseDone t h in
      if done then Done
      else
        let ((resp, err), h2) = NextResponse t h1 in
        case err of
          Some e \<Rightarrow> Failed e
        | None \<Rightarrow>
            (case snd (ReUnmarshal zero resp) of
               Some e \<Rightarrow> Failed e
             | None \<Rightarrow> loop_end ReUnmarshal zero t n h2))"

text \<open>
  A history that keeps the protocol of the channel: a close ends the history, and a value
  whose error is set is followed by the close and by nothing else.
\<close>

fun orderly :: "'a chan_event list \<Rightarrow> bool" where
  "orderly [] = True"
| "orderly (Close # evs) = (evs = [])"
| "orderly (Send u # evs) = (if Error u \<noteq> None then evs = [Close] else orderly evs)"

section \<open>Concrete ports and transports for the runs below\<close>

text \<open>
  A port scripted by a table from command strings to answers: a command outside the
  table fails as an unknown command does. The pipe and the start succeed, and the wait
  reports the kill.
\<close>

definition exit127 :: go_error where
  "exit127 = GoError ''exit status 127''"

definition scripted :: "(string \<times> string \<times> go_error option) list \<Rightarrow> Distro" where
  "scripted tbl =
     \<lparr>Output = (\<lambda>c. case map_of tbl c of Some r \<Rightarrow> r | None \<Rightarrow> ('''', Some exit127)),
      StdinPipe = (\<lambda>c. None), Start = (\<lambda>c. None), Copy = (\<lambda>c d. None),
      Wait = (\<lambda>c. Some (GoError ''signal: killed''))\<rparr>"

definition nl :: string where
  "nl = [CHR 0x0A]"

text \<open>A host with one local file, \<^verbatim>\<open>/tmp/wsh\<close>, and stand-ins for the library calls.\<close>

definition host0 :: Host where
  "host0 =
     \<lparr>filepath_Dir = (\<lambda>p. rev (drop 1 (dropWhile (\<lambda>c. c \<noteq> CHR ''/'') (rev p)))),
      filepath_ToSlash = (\<lambda>p. p),
      template_Execute = (\<lambda>raw ws. raw @ concat (map snd ws)),
      os_Open = (\<lambda>p. if p = ''/tmp/wsh'' then Inr ''ELF'' else Inl (GoError ''no such file''))\<rparr>"

text \<open>
  A Windows target: \<^verbatim>\<open>uname -s\<close> fails, \<^verbatim>\<open>echo %OS%\<close> echoes the placeholder and the
  PowerShell variant prints \<^verbatim>\<open>Windows_NT\<close> with a CR LF line end.
\<close>

definition scenario4 :: Distro where
  "scenario4 = scripted [(''echo %OS%'', (''%OS%'' @ nl, None)),
                         (''echo $env:OS'', (''Windows_NT'' @ [CHR 0x0D] @ nl, None))]"

text \<open>A Cygwin target, whose \<^verbatim>\<open>uname -s\<close> prints a name with an underscore.\<close>

definition cygwin :: Distro where
  "cygwin = scripted [(''uname -s'', (''CYGWIN_NT-10.0'' @ nl, None))]"

text \<open>A target whose \<^verbatim>\<open>which wsh\<close> succeeds and prints the default path itself.\<close>

definition which_default :: Distro where
  "which_default = scripted [(''which wsh'', (''~/.waveterm/bin/wsh'' @ nl, None))]"

text \<open>
  Transports over envelopes that are numbers, decoded into \<open>int\<close>: the envelope 0 does
  not decode. \<open>replay ok rs\<close> answers every send when \<open>ok\<close> and refuses it otherwise;
  its streaming request hands out the envelopes \<open>rs\<close> and is then done. \<open>forever\<close> is a
  subscription: its handler is never done and hands out 1, 2, 3 and so on. \<open>dropping\<close>
  is a connection that is lost: its handler hands out 1 and 2 and then fails.
\<close>

definition unmarshal_int :: "int \<Rightarrow> nat \<Rightarrow> int \<times> go_error option" where
  "unmarshal_int respData resp =
     (if resp = 0 then (respData, Some (GoError ''cannot unmarshal'')) else (int resp, None))"

definition replay :: "bool \<Rightarrow> nat list \<Rightarrow> (unit, nat, nat list) WshRpc" where
  "replay ok rs =
     \<lparr>SendCommand = (\<lambda>c d ro. if ok then None else Some (GoError ''send failed'')),
      SendRpcRequest = (\<lambda>c d ro. if ok then (42, None) else (0, Some (GoError ''send failed''))),
      SendComplexRequest =
        (\<lambda>c d ro. if ok then (rs, None) else ([], Some (GoError ''send failed''))),
      ResponseDone = (\<lambda>h. (h = [], h)),
      NextResponse = (\<lambda>h. case h of [] \<Rightarrow> ((0, Some (GoError ''EOF'')), [])
                                | r # rs \<Rightarrow> ((r, None), rs))\<rparr>"

definition forever :: "(unit, nat, nat) WshRpc" where
  "forever =
     \<lparr>SendCommand = (\<lambda>c d ro. None),
      SendRpcRequest = (\<lambda>c d ro. (1, None)),
      SendComplexRequest = (\<lambda>c d ro. (1, None)),
      ResponseDone = (\<lambda>h. (False, h)),
      NextResponse = (\<lambda>h. ((h, None), Suc h))\<rparr>"

definition dropping :: "(unit, nat, nat) WshRpc" where
  "dropping =
     \<lparr>SendCommand = (\<lambda>c d ro. None),
      SendRpcRequest = (\<lambda>c d ro. (1, None)),
      SendComplexRequest = (\<lambda>c d ro. (1, None)),
      ResponseDone = (\<lambda>h. (False, h)),
      NextResponse = (\<lambda>h. if h < 3 then ((h, None), Suc h)
                               else ((0, Some (GoError ''connection lost'')), h))\<rparr>"

section \<open>Facts about the library functions\<close>

lemmas run_simps = scripted_def nl_def exit127_def TrimSpace_def ToLower_def lower_of_def
  isSpace_def Let_def

lemma Split_nonempty: "Split s c \<noteq> []"
  by (induction s) (auto split: list.splits)

text \<open>Index 0 of a split is the text before the first separator.\<close>

lemma hd_Split: "hd (Split s c) = takeWhile (\<lambda>x. x \<noteq> c) s"
  by (induction s) (auto split: list.splits simp: Split_nonempty)

section \<open>Facts about the response stream\<close>

lemma orderly_stream_loop: "orderly (stream_loop RU z t n h)"
  by (induction n arbitrary: h) (auto simp: Let_def split: prod.splits)

lemma orderly_rtnErr: "orderly (rtnErr z e)"
  by (simp add: rtnErr_def)

lemma orderly_helper: "orderly (sendRpcRequestResponseStreamHelper RU z w c d opts n)"
  by (auto simp: sendRpcRequestResponseStreamHelper_def orderly_stream_loop orderly_rtnErr
        Let_def split: option.splits prod.splits)

lemma orderly_suffix: "orderly (pre @ evs) \<Longrightarrow> orderly evs"
proof (induction pre)
  case Nil
  then show ?case by simp
next
  case (Cons e pre)
  then show ?case
    by (cases e) (auto split: if_splits simp: append_eq_Cons_conv Cons_eq_append_conv)
qed

lemma orderly_count: "orderly evs \<Longrightarrow> count_list evs Close \<le> 1"
  by (induction evs rule: orderly.induct) (auto split: if_splits)

lemma orderly_after_close: "orderly (pre @ Close # post) \<Longrightarrow> post = []"
  using orderly_suffix [of pre "Close # post"] by simp

lemma orderly_after_error: "orderly (pre @ Send u # post) \<Longrightarrow> Error u \<noteq> None \<Longrightarrow> post = [Close]"
  using orderly_suffix [of pre "Send u # post"] by simp

lemma stream_loop_closed_stable:
  "Close \<in> set (stream_loop RU z t n h) \<Longrightarrow> n \<le> m \<Longrightarrow>
     stream_loop RU z t m h = stream_loop RU z t n h"
proof (induction n arbitrary: h m)
  case 0
  then show ?case by simp
next
  case (Suc n)
  then obtain m' where m: "m = Suc m'" and le: "n \<le> m'"
    by (cases m) auto
  show ?case
    using Suc.prems(1) Suc.IH [OF _ le] unfolding m
    by (auto simp: Let_def split: prod.splits if_splits)
qed

lemma count_one: "count_list evs Close \<le> 1 \<Longrightarrow> Close \<in> set evs \<Longrightarrow> count_list evs Close = 1"
  by (metis count_list_0_iff le_neq_implies_less less_one)

text \<open>The history of the loop, by the way the loop stands.\<close>

lemma stream_loop_Running:
  "loop_end RU zero t n h = Running \<Longrightarrow>
     Close \<notin> set (stream_loop RU zero t n h)
     \<and> (\<forall>u. Send u \<in> set (stream_loop RU zero t n h) \<longrightarrow> Error u = None)"
proof (induction n arbitrary: h)
  case 0
  then show ?case by simp
next
  case (Suc n)
  obtain dn h1 where d: "ResponseDone t h = (dn, h1)"
    by (cases "ResponseDone t h")
  obtain resp err h2 where x: "NextResponse t h1 = ((resp, err), h2)"
    by (cases "NextResponse t h1") auto
  obtain v e where u: "RU zero resp = (v, e)"
    by (cases "RU zero resp")
  from Suc.prems d x u
  have c: "\<not> dn" "err = None" "e = None" "loop_end RU zero t n h2 = Running"
    by (auto split: if_splits option.splits)
  show ?case
    using c d x u Suc.IH [OF c(4)] by auto
qed

lemma stream_loop_Done:
  "loop_end RU zero t n h = Done \<Longrightarrow>
     \<exists>vs. stream_loop RU zero t n h = map Send vs @ [Close] \<and> (\<forall>v\<in>set vs. Error v = None)"
proof (induction n arbitrary: h)
  case 0
  then show ?case by simp
next
  case (Suc n)
  obtain dn h1 where d: "ResponseDone t h = (dn, h1)"
    by (cases "ResponseDone t h")
  obtain resp err h2 where x: "NextResponse t h1 = ((resp, err), h2)"
    by (cases "NextResponse t h1") auto
  obtain v e where u: "RU zero resp = (v, e)"
    by (cases "RU zero resp")
  show ?case
  proof (cases dn)
    case True
    with d show ?thesis
      by (intro exI [of _ "[]"]) simp
  next
    case False
    with Suc.prems d x u have c: "err = None" "e = None" "loop_end RU zero t n h2 = Done"
      by (auto split: option.splits)
    from Suc.IH [OF c(3)] obtain vs where
      vs: "stream_loop RU zero t n h2 = map Send vs @ [Close]" "\<forall>v\<in>set vs. Error v = None"
      by blast
    show ?thesis
      using False d x u c vs
      by (intro exI [of _ "\<lparr>Response = v, Error = None\<rparr> # vs"]) simp
  qed
qed

lemma stream_loop_Failed:
  "loop_end RU zero t n h = Failed e \<Longrightarrow>
     \<exists>vs. stream_loop RU zero t n h
            = map Send vs @ [Send \<lparr>Response = zero, Error = Some e\<rparr>, Close]
          \<and> (\<forall>v\<in>set vs. Error v = None)"
proof (induction n arbitrary: h)
  case 0
  then show ?case by simp
next
  case (Suc n)
  obtain dn h1 where d: "ResponseDone t h = (dn, h1)"
    by (cases "ResponseDone t h")
  obtain resp err h2 where x: "NextResponse t h1 = ((resp, err), h2)"
    by (cases "NextResponse t h1") auto
  obtain v e' where u: "RU zero resp = (v, e')"
    by (cases "RU zero resp")
  from Suc.prems d have nd: "\<not> dn"
    by (auto split: if_splits)
  show ?case
  proof (cases "err = None \<and> e' = None")
    case False
    with Suc.prems d x u nd show ?thesis
      by (intro exI [of _ "[]"]) (auto split: option.splits)
  next
    case True
    with Suc.prems d x u nd have c: "loop_end RU zero t n h2 = Failed e"
      by simp
    from Suc.IH [OF c] obtain vs where
      vs: "stream_loop RU zero t n h2
             = map Send vs @ [Send \<lparr>Response = zero, Error = Some e\<rparr>, Close]"
          "\<forall>v\<in>set vs. Error v = None"
      by blast
    show ?thesis
      using True nd d x u vs
      by (intro exI [of _ "\<lparr>Response = v, Error = None\<rparr> # vs"]) simp
  qed
qed

lemma loop_end_history:
  "(case loop_end RU zero t n h of
      Running \<Rightarrow>
        Close \<notin> set (stream_loop RU zero t n h)
        \<and> (\<forall>u. Send u \<in> set (stream_loop RU zero t n h) \<longrightarrow> Error u = None)
    | Done \<Rightarrow>
        count_list (stream_loop RU zero t n h) Close = 1
        \<and> (\<exists>vs. stream_loop RU zero t n h = map Send vs @ [Close]
               \<and> (\<forall>v\<in>set vs. Error v = None))
    | Failed e \<Rightarrow>
        count_list (stream_loop RU zero t n h) Close = 1
        \<and> (\<exists>vs. stream_loop RU zero t n h
                 = map Send vs @ [Send \<lparr>Response = zero, Error = Some e\<rparr>, Close]
               \<and> (\<forall>v\<in>set vs. Error v = None)))"
proof (cases "loop_end RU zero t n h")
  case Running
  then show ?thesis
    using stream_loop_Running [of RU zero t n h] by simp
next
  case Done
  then obtain vs where
    vs: "stream_loop RU zero t n h = map Send vs @ [Close]" "\<forall>v\<in>set vs. Error v = None"
    using stream_loop_Done [of RU zero t n h] by blast
  then have "Close \<in> set (stream_loop RU zero t n h)"
    by simp
  then have "count_list (stream_loop RU zero t n h) Close = 1"
    using orderly_count [OF orderly_stream_loop] by (rule count_one [rotated])
  with Done vs show ?thesis
    by auto
next
  case (Failed e)
  then obtain vs where
    vs: "stream_loop RU zero t n h
           = map Send vs @ [Send \<lparr>Response = zero, Error = Some e\<rparr>, Close]"
        "\<forall>v\<in>set vs. Error v = None"
    using stream_loop_Failed [of RU zero t n h e] by blast
  then have "Close \<in> set (stream_loop RU zero t n h)"
    by simp
  then have "count_list (stream_loop RU zero t n h) Close = 1"
    using orderly_count [OF orderly_stream_loop] by (rule count_one [rotated])
  with Failed vs show ?thesis
    by auto
qed

lemma stream_loop_forever:
  "stream_loop unmarshal_int 0 forever n (Suc h) =
     map (\<lambda>k. Send \<lparr>Response = int k, Error = None\<rparr>) [Suc h..<Suc h + n]"
proof (induction n arbitrary: h)
  case 0
  then show ?case by simp
next
  case (Suc n)
  have "[Suc h..<Suc h + Suc n] = Suc h # [Suc (Suc h)..<Suc (Suc h) + n]"
    by (simp add: upt_rec)
  then show ?case
    using Suc.IH [of "Suc h"] by (simp add: forever_def unmarshal_int_def)
qed

lemma helper_closed_stable:
  "Close \<in> set (sendRpcRequestResponseStreamHelper RU zero w command data opts fuel) \<Longrightarrow>
   fuel \<le> m \<Longrightarrow>
   sendRpcRequestResponseStreamHelper RU zero w command data opts m
     = sendRpcRequestResponseStreamHelper RU zero w command data opts fuel"
proof (cases w)
  case None
  then show ?thesis
    by (simp add: sendRpcRequestResponseStreamHelper_def)
next
  case (Some t)
  assume c: "Close \<in> set (sendRpcRequestResponseStreamHelper RU zero w command data opts fuel)"
    and le: "fuel \<le> m"
  obtain h err where s: "SendComplexRequest t command data
      (case opts of None \<Rightarrow> zeroRpcOpts | Some ro \<Rightarrow> ro) = (h, err)"
    by (cases "SendComplexRequest t command data
      (case opts of None \<Rightarrow> zeroRpcOpts | Some ro \<Rightarrow> ro)")
  show ?thesis
  proof (cases err)
    case None
    with c Some s have "Close \<in> set (stream_loop RU zero t fuel h)"
      by (simp add: sendRpcRequestResponseStreamHelper_def)
    then have "stream_loop RU zero t m h = stream_loop RU zero t fuel h"
      using le by (rule stream_loop_closed_stable)
    with None Some s show ?thesis
      by (simp add: sendRpcRequestResponseStreamHelper_def)
  next
    case (Some e)
    with \<open>w = Some t\<close> s show ?thesis
      by (simp add: sendRpcRequestResponseStreamHelper_def)
  qed
qed

lemma stream_loop_produces:
  "produces t h rs \<Longrightarrow> \<forall>r\<in>set rs. snd (RU zero r) = None \<Longrightarrow> length rs < fuel \<Longrightarrow>
     stream_loop RU zero t fuel h
       = map (\<lambda>r. Send \<lparr>Response = fst (RU zero r), Error = None\<rparr>) rs @ [Close]"
proof (induction rs arbitrary: h fuel)
  case Nil
  then obtain n where "fuel = Suc n"
    by (cases fuel) auto
  with Nil show ?case
    by (cases "ResponseDone t h") simp
next
  case (Cons r rs)
  then obtain n where n: "fuel = Suc n" "length rs < n"
    by (cases fuel) auto
  obtain dn h1 where d: "ResponseDone t h = (dn, h1)"
    by (cases "ResponseDone t h")
  obtain resp err h2 where x: "NextResponse t h1 = ((resp, err), h2)"
    by (cases "NextResponse t h1") auto
  obtain v e where u: "RU zero r = (v, e)"
    by (cases "RU zero r")
  from Cons.prems(1) d x have p: "\<not> dn" "err = None" "resp = r" "produces t h2 rs"
    by (auto split: if_splits)
  from Cons.prems(2) u have e: "e = None" and rest: "\<forall>r\<in>set rs. snd (RU zero r) = None"
    by auto
  have "stream_loop RU zero t n h2
      = map (\<lambda>r. Send \<lparr>Response = fst (RU zero r), Error = None\<rparr>) rs @ [Close]"
    using p(4) rest n(2) by (rule Cons.IH)
  then show ?case
    using d x u p e by (simp add: n(1))
qed

lemma stream_loop_values:
  "Send u \<in> set (stream_loop RU zero t fuel h) \<Longrightarrow>
     (Error u = None \<and> (\<exists>resp. RU zero resp = (Response u, None)))
     \<or> (Error u \<noteq> None \<and> Response u = zero)"
  by (induction fuel arbitrary: h) (auto simp: Let_def split: prod.splits if_splits)

section \<open>The remote environment probe\<close>

text \<open>
  Claim C9. \<open>hasBashInstalled\<close> never returns an error: it answers true exactly when
  \<^verbatim>\<open>which bash\<close> or \<^verbatim>\<open>where.exe bash\<close> succeeds with non-empty output, and false
  otherwise, always with a nil error. So \<open>CpHostToRemote\<close> never takes the branch that
  returns the probe's error: it is the rest of its body run on the probe's answer.
\<close>

theorem hasBashInstalled_never_errors:
  "hasBashInstalled client =
     ((snd (Output client ''which bash'') = None \<and> fst (Output client ''which bash'') \<noteq> [])
      \<or> (snd (Output client ''where.exe bash'') = None
           \<and> fst (Output client ''where.exe bash'') \<noteq> []), None)
   \<and> CpHostToRemote host client sourcePath destPath =
       CpHostToRemote_install host client (fst (hasBashInstalled client)) sourcePath destPath"
  by (auto simp: hasBashInstalled_def CpHostToRemote_def Let_def split: prod.splits)

theorem hasBashInstalled_never_errors_witness:
  "hasBashInstalled (scripted [(''which bash'', (''/usr/bin/bash'' @ nl, None))]) = (True, None)
   \<and> hasBashInstalled (scripted [(''which bash'', ([], None))]) = (False, None)
   \<and> CpHostToRemote host0 (scripted [(''which bash'', (''/usr/bin/bash'' @ nl, None))])
        ''/tmp/wsh'' ''~/.waveterm/bin/wsh'' = None"
  using hasBashInstalled_never_errors
          [of "scripted [(''which bash'', (''/usr/bin/bash'' @ nl, None))]" host0
              "''/tmp/wsh''" "''~/.waveterm/bin/wsh''"]
        hasBashInstalled_never_errors
          [of "scripted [(''which bash'', ([], None))]" host0 "''/tmp/wsh''" "''x''"]
  by (simp add: scripted_def nl_def exit127_def CpHostToRemote_install_def host0_def Let_def)

text \<open>
  Claim C10, as the code has it. \<open>GetWshPath\<close> always returns a path: the trimmed
  output of one of its three probes or the default. It returns the default whenever
  \<^verbatim>\<open>which wsh\<close> fails, \<^verbatim>\<open>where.exe wsh\<close> fails, and the cmd probe fails or prints
  \<^verbatim>\<open>none\<close>. The converse needs one more case: the returned string is the default exactly
  when those conditions hold or the probe that was taken printed the default path itself.
\<close>

theorem GetWshPath_default:
  "GetWshPath client \<in> {TrimSpace (fst (Output client ''which wsh'')),
                          TrimSpace (fst (Output client ''where.exe wsh'')),
                          TrimSpace (fst (Output client wshCmdProbe)), defaultPath}
   \<and> (snd (Output client ''which wsh'') \<noteq> None
        \<and> snd (Output client ''where.exe wsh'') \<noteq> None
        \<and> (snd (Output client wshCmdProbe) \<noteq> None
             \<or> TrimSpace (fst (Output client wshCmdProbe)) = ''none'')
       \<longrightarrow> GetWshPath client = defaultPath)
   \<and> (GetWshPath client = defaultPath \<longleftrightarrow>
        (if snd (Output client ''which wsh'') = None
         then TrimSpace (fst (Output client ''which wsh'')) = defaultPath
         else if snd (Output client ''where.exe wsh'') = None
         then TrimSpace (fst (Output client ''where.exe wsh'')) = defaultPath
         else snd (Output client wshCmdProbe) \<noteq> None
              \<or> TrimSpace (fst (Output client wshCmdProbe)) = ''none''
              \<or> TrimSpace (fst (Output client wshCmdProbe)) = defaultPath))"
  by (auto simp: GetWshPath_def Let_def split: prod.splits)

theorem GetWshPath_default_witness:
  "GetWshPath (scripted []) = ''~/.waveterm/bin/wsh''
   \<and> GetWshPath (scripted [(''where.exe wsh'', (''C:/bin/wsh.exe'' @ nl, None))])
       = ''C:/bin/wsh.exe''"
  using GetWshPath_default [of "scripted []"]
        GetWshPath_default [of "scripted [(''where.exe wsh'', (''C:/bin/wsh.exe'' @ nl, None))]"]
  by (simp add: run_simps defaultPath_def wshCmdProbe_def bslash_def GetWshPath_def)

text \<open>
  The claim as written fails where \<^verbatim>\<open>which wsh\<close> succeeds and prints the default path:
  the default string is returned although no probe failed.
\<close>

theorem GetWshPath_default_counterexample:
  "\<not> (GetWshPath which_default = defaultPath \<longleftrightarrow>
        (snd (Output which_default ''which wsh'') \<noteq> None
         \<and> snd (Output which_default ''where.exe wsh'') \<noteq> None
         \<and> (snd (Output which_default wshCmdProbe) \<noteq> None
              \<or> TrimSpace (fst (Output which_default wshCmdProbe)) = ''none'')))"
  by (simp add: which_default_def run_simps defaultPath_def GetWshPath_def)

text \<open>
  Claim C6, as the code has it. A successful result of \<open>GetClientOs\<close> comes from one of
  the three variants. From \<^verbatim>\<open>uname -s\<close> it is the output lowercased and trimmed, and
  is not truncated. From \<^verbatim>\<open>echo %OS%\<close> and from \<^verbatim>\<open>echo $env:OS\<close>, each taken only when
  the one before failed and its own output is not the unexpanded placeholder, it is the
  output lowercased, trimmed and cut at the first underscore. On the Windows target,
  where \<^verbatim>\<open>uname -s\<close> fails, the cmd variant echoes \<^verbatim>\<open>%OS%\<close> and the PowerShell variant
  prints \<^verbatim>\<open>Windows_NT\<close>, the result is \<^verbatim>\<open>windows\<close>.
\<close>

theorem GetClientOs_variants:
  "((snd (Output client ''uname -s'') = None \<longrightarrow>
      GetClientOs client = (TrimSpace (ToLower (fst (Output client ''uname -s''))), None))
   \<and> (snd (Output client ''uname -s'') \<noteq> None
        \<and> snd (Output client ''echo %OS%'') = None
        \<and> TrimSpace (fst (Output client ''echo %OS%'')) \<noteq> ''%OS%'' \<longrightarrow>
      GetClientOs client =
        (takeWhile (\<lambda>c. c \<noteq> CHR ''_'') (TrimSpace (ToLower (fst (Output client ''echo %OS%'')))),
         None))
   \<and> (snd (Output client ''uname -s'') \<noteq> None
        \<and> \<not> (snd (Output client ''echo %OS%'') = None
             \<and> TrimSpace (fst (Output client ''echo %OS%'')) \<noteq> ''%OS%'')
        \<and> snd (Output client ''echo $env:OS'') = None
        \<and> TrimSpace (fst (Output client ''echo $env:OS'')) \<noteq> ''$env:OS'' \<longrightarrow>
      GetClientOs client =
        (takeWhile (\<lambda>c. c \<noteq> CHR ''_'')
           (TrimSpace (ToLower (fst (Output client ''echo $env:OS'')))), None))
   \<and> (snd (GetClientOs client) = None \<longrightarrow>
        snd (Output client ''uname -s'') = None
        \<or> (snd (Output client ''echo %OS%'') = None
            \<and> TrimSpace (fst (Output client ''echo %OS%'')) \<noteq> ''%OS%'')
        \<or> (snd (Output client ''echo $env:OS'') = None
            \<and> TrimSpace (fst (Output client ''echo $env:OS'')) \<noteq> ''$env:OS'')))
   \<and> GetClientOs scenario4 = (''windows'', None)"
proof (rule conjI)
  show "(snd (Output client ''uname -s'') = None \<longrightarrow>
      GetClientOs client = (TrimSpace (ToLower (fst (Output client ''uname -s''))), None))
   \<and> (snd (Output client ''uname -s'') \<noteq> None
        \<and> snd (Output client ''echo %OS%'') = None
        \<and> TrimSpace (fst (Output client ''echo %OS%'')) \<noteq> ''%OS%'' \<longrightarrow>
      GetClientOs client =
        (takeWhile (\<lambda>c. c \<noteq> CHR ''_'') (TrimSpace (ToLower (fst (Output client ''echo %OS%'')))),
         None))
   \<and> (snd (Output client ''uname -s'') \<noteq> None
        \<and> \<not> (snd (Output client ''echo %OS%'') = None
             \<and> TrimSpace (fst (Output client ''echo %OS%'')) \<noteq> ''%OS%'')
        \<and> snd (Output client ''echo $env:OS'') = None
        \<and> TrimSpace (fst (Output client ''echo $env:OS'')) \<noteq> ''$env:OS'' \<longrightarrow>
      GetClientOs client =
        (takeWhile (\<lambda>c. c \<noteq> CHR ''_'')
           (TrimSpace (ToLower (fst (Output client ''echo $env:OS'')))), None))
   \<and> (snd (GetClientOs client) = None \<longrightarrow>
        snd (Output client ''uname -s'') = None
        \<or> (snd (Output client ''echo %OS%'') = None
            \<and> TrimSpace (fst (Output client ''echo %OS%'')) \<noteq> ''%OS%'')
        \<or> (snd (Output client ''echo $env:OS'') = None
            \<and> TrimSpace (fst (Output client ''echo $env:OS'')) \<noteq> ''$env:OS''))"
    by (auto simp: GetClientOs_def Let_def hd_Split split: prod.splits)
  show "GetClientOs scenario4 = (''windows'', None)"
    by (simp add: GetClientOs_def scenario4_def run_simps)
qed

theorem GetClientOs_variants_witness:
  "GetClientOs scenario4 = (''windows'', None)
   \<and> GetClientOs (scripted [(''uname -s'', ('' Darwin '' @ nl, None))]) = (''darwin'', None)
   \<and> GetClientOs (scripted [(''echo %OS%'', (''linux_something'' @ nl, None))]) = (''linux'', None)"
  using GetClientOs_variants [of scenario4]
        GetClientOs_variants [of "scripted [(''uname -s'', ('' Darwin '' @ nl, None))]"]
        GetClientOs_variants [of "scripted [(''echo %OS%'', (''linux_something'' @ nl, None))]"]
  by (simp add: scenario4_def run_simps)

text \<open>
  The claim as written fails on the \<^verbatim>\<open>uname -s\<close> variant: on the Cygwin target the
  probe succeeds with the whole lowercased name, underscore included, where cutting at the
  first underscore would give \<^verbatim>\<open>cygwin\<close>.
\<close>

theorem GetClientOs_variants_counterexample:
  "snd (GetClientOs cygwin) = None
   \<and> fst (GetClientOs cygwin) = ''cygwin_nt-10.0''
   \<and> takeWhile (\<lambda>c. c \<noteq> CHR ''_'') (TrimSpace (ToLower (fst (Output cygwin ''uname -s''))))
       = ''cygwin''"
  by (simp add: cygwin_def run_simps GetClientOs_def)

text \<open>
  Claim C7. When \<^verbatim>\<open>uname -m\<close> succeeds, \<open>GetClientArch\<close> returns the output lowercased
  and trimmed, with \<^verbatim>\<open>x86_64\<close> and nothing else replaced by \<^verbatim>\<open>x64\<close>. When it fails,
  the cmd variant and then the PowerShell variant are tried, each rejected when it fails
  or echoes its placeholder unexpanded, and is returned lowercased and trimmed. When all
  three are rejected the result is the empty string and an error whose message lists the
  three variants' errors.
\<close>

theorem GetClientArch_variants:
  "(snd (Output client ''uname -m'') = None \<longrightarrow>
      GetClientArch client =
        (if TrimSpace (ToLower (fst (Output client ''uname -m''))) = ''x86_64'' then ''x64''
         else TrimSpace (ToLower (fst (Output client ''uname -m''))), None))
   \<and> (snd (Output client ''uname -m'') \<noteq> None
        \<and> snd (Output client ''echo %PROCESSOR_ARCHITECTURE%'') = None
        \<and> TrimSpace (fst (Output client ''echo %PROCESSOR_ARCHITECTURE%''))
            \<noteq> ''%PROCESSOR_ARCHITECTURE%'' \<longrightarrow>
      GetClientArch client =
        (TrimSpace (ToLower (fst (Output client ''echo %PROCESSOR_ARCHITECTURE%''))), None))
   \<and> (snd (Output client ''uname -m'') \<noteq> None
        \<and> \<not> (snd (Output client ''echo %PROCESSOR_ARCHITECTURE%'') = None
             \<and> TrimSpace (fst (Output client ''echo %PROCESSOR_ARCHITECTURE%''))
                 \<noteq> ''%PROCESSOR_ARCHITECTURE%'')
        \<and> snd (Output client ''echo $env:PROCESSOR_ARCHITECTURE'') = None
        \<and> TrimSpace (fst (Output client ''echo $env:PROCESSOR_ARCHITECTURE''))
            \<noteq> ''$env:PROCESSOR_ARCHITECTURE'' \<longrightarrow>
      GetClientArch client =
        (TrimSpace (ToLower (fst (Output client ''echo $env:PROCESSOR_ARCHITECTURE''))), None))
   \<and> (snd (Output client ''uname -m'') \<noteq> None
        \<and> \<not> (snd (Output client ''echo %PROCESSOR_ARCHITECTURE%'') = None
             \<and> TrimSpace (fst (Output client ''echo %PROCESSOR_ARCHITECTURE%''))
                 \<noteq> ''%PROCESSOR_ARCHITECTURE%'')
        \<and> \<not> (snd (Output client ''echo $env:PROCESSOR_ARCHITECTURE'') = None
             \<and> TrimSpace (fst (Output client ''echo $env:PROCESSOR_ARCHITECTURE''))
                 \<noteq> ''$env:PROCESSOR_ARCHITECTURE'') \<longrightarrow>
      GetClientArch client =
        ('''', Some (archErrorf (snd (Output client ''uname -m''))
                      (snd (Output client ''echo %PROCESSOR_ARCHITECTURE%''))
                      (snd (Output client ''echo $env:PROCESSOR_ARCHITECTURE'')))))"
  by (auto simp: GetClientArch_def Let_def split: prod.splits)

theorem GetClientArch_variants_witness:
  "GetClientArch (scripted [(''uname -m'', (''x86_64'' @ nl, None))]) = (''x64'', None)
   \<and> GetClientArch (scripted [(''uname -m'', (''arm64'' @ nl, None))]) = (''arm64'', None)
   \<and> GetClientArch (scripted [(''echo %PROCESSOR_ARCHITECTURE%'',
                                (''%PROCESSOR_ARCHITECTURE%'' @ nl, None)),
                               (''echo $env:PROCESSOR_ARCHITECTURE'', (''AMD64'' @ nl, None))])
       = (''amd64'', None)
   \<and> GetClientArch (scripted []) =
       ('''', Some (GoError (''unable to determine architecture: {unix: exit status 127, ''
                             @ ''cmd: exit status 127, powershell: exit status 127}'')))"
  using GetClientArch_variants [of "scripted [(''uname -m'', (''x86_64'' @ nl, None))]"]
        GetClientArch_variants [of "scripted [(''uname -m'', (''arm64'' @ nl, None))]"]
        GetClientArch_variants
          [of "scripted [(''echo %PROCESSOR_ARCHITECTURE%'',
                                (''%PROCESSOR_ARCHITECTURE%'' @ nl, None)),
                               (''echo $env:PROCESSOR_ARCHITECTURE'', (''AMD64'' @ nl, None))]"]
        GetClientArch_variants [of "scripted []"]
  by (simp add: run_simps archErrorf_def)

text \<open>
  Claim C8. \<open>CpHostToRemote\<close> returns an error exactly when the bash probe errors, the
  pipe cannot be opened, the process does not start, or the local file cannot be opened.
  Otherwise it returns nil, and the outcomes of the copy and of the wait (the exit
  status of the remote process) have no part in the result.
\<close>

theorem CpHostToRemote_errors:
  "(CpHostToRemote host client sourcePath destPath \<noteq> None \<longleftrightarrow>
      snd (hasBashInstalled client) \<noteq> None
      \<or> StdinPipe client (renderInstallCmd host (fst (hasBashInstalled client)) destPath) \<noteq> None
      \<or> Start client (renderInstallCmd host (fst (hasBashInstalled client)) destPath) \<noteq> None
      \<or> (\<exists>err. os_Open host sourcePath = Inl err))
   \<and> CpHostToRemote host (client\<lparr>Copy := copy, Wait := wait\<rparr>) sourcePath destPath
       = CpHostToRemote host client sourcePath destPath"
  by (auto simp: CpHostToRemote_def CpHostToRemote_install_def hasBashInstalled_def Let_def
           split: prod.splits option.splits sum.splits)

theorem CpHostToRemote_errors_witness:
  "CpHostToRemote host0 (scripted []) ''/tmp/wsh'' ''~/.waveterm/bin/wsh'' = None
   \<and> CpHostToRemote host0 (scripted []\<lparr>Copy := (\<lambda>c d. Some (GoError ''broken pipe'')),
                                         Wait := (\<lambda>c. Some (GoError ''exit status 1''))\<rparr>)
        ''/tmp/wsh'' ''~/.waveterm/bin/wsh'' = None
   \<and> CpHostToRemote host0 (scripted []) ''/tmp/missing'' ''~/.waveterm/bin/wsh''
       = Some (GoError ''cannot open local file /tmp/missing to send to host: no such file'')"
  using CpHostToRemote_errors
          [where host = host0 and client = "scripted []" and sourcePath = "''/tmp/wsh''"
             and destPath = "''~/.waveterm/bin/wsh''"
             and copy = "\<lambda>c d. Some (GoError ''broken pipe'')"
             and wait = "\<lambda>c. Some (GoError ''exit status 1'')"]
        CpHostToRemote_errors [of host0 "scripted []" "''/tmp/missing''" "''~/.waveterm/bin/wsh''"]
  by (simp add: scripted_def exit127_def host0_def hasBashInstalled_def CpHostToRemote_def
        CpHostToRemote_install_def openErrorf_def Let_def)

section \<open>The request dispatcher and the response stream\<close>

text \<open>
  Claim C1, as the code has it. Whatever the transport does and however long the
  goroutine has run, the channel has been closed at most once, nothing follows the close,
  and a value whose error is set is followed by the close and by no further value. When
  the request cannot be initiated (nil transport, or an error of \<open>SendComplexRequest\<close>)
  the history is one error value and the close. When the request is accepted, the history
  follows the loop: while the loop runs the channel is open and every value sent has a nil
  error; once \<open>ResponseDone\<close> has reported true the history is the values sent, each with
  a nil error, and one close; once \<open>NextResponse\<close> or the decoder has failed it is the
  values sent before, then one value carrying that error and the zero response, and one
  close. A closed history no longer changes with more rounds.
\<close>

theorem stream_channel_protocol:
  "count_list (sendRpcRequestResponseStreamHelper RU zero w command data opts fuel) Close \<le> 1
   \<and> (\<forall>pre post. sendRpcRequestResponseStreamHelper RU zero w command data opts fuel
          = pre @ Close # post \<longrightarrow> post = [])
   \<and> (\<forall>pre u post. sendRpcRequestResponseStreamHelper RU zero w command data opts fuel
          = pre @ Send u # post \<and> Error u \<noteq> None \<longrightarrow> post = [Close])
   \<and> (Close \<in> set (sendRpcRequestResponseStreamHelper RU zero w command data opts fuel) \<longrightarrow>
        count_list (sendRpcRequestResponseStreamHelper RU zero w command data opts fuel) Close = 1
        \<and> (\<forall>m\<ge>fuel. sendRpcRequestResponseStreamHelper RU zero w command data opts m
              = sendRpcRequestResponseStreamHelper RU zero w command data opts fuel))
   \<and> (w = None \<longrightarrow>
        sendRpcRequestResponseStreamHelper RU zero w command data opts fuel
          = [Send \<lparr>Response = zero, Error = Some nilWshRpc\<rparr>, Close])
   \<and> (\<forall>t err. w = Some t
          \<and> snd (SendComplexRequest t command data
                   (case opts of None \<Rightarrow> zeroRpcOpts | Some ro \<Rightarrow> ro)) = Some err \<longrightarrow>
        sendRpcRequestResponseStreamHelper RU zero w command data opts fuel
          = [Send \<lparr>Response = zero, Error = Some err\<rparr>, Close])
   \<and> (\<forall>t h. w = Some t
          \<and> SendComplexRequest t command data
                (case opts of None \<Rightarrow> zeroRpcOpts | Some ro \<Rightarrow> ro) = (h, None) \<longrightarrow>
        (case loop_end RU zero t fuel h of
           Running \<Rightarrow>
             Close \<notin> set (sendRpcRequestResponseStreamHelper RU zero w command data opts fuel)
             \<and> (\<forall>u. Send u
                      \<in> set (sendRpcRequestResponseStreamHelper RU zero w command data opts fuel)
                    \<longrightarrow> Error u = None)
         | Done \<Rightarrow>
             count_list (sendRpcRequestResponseStreamHelper RU zero w command data opts fuel)
               Close = 1
             \<and> (\<exists>vs. sendRpcRequestResponseStreamHelper RU zero w command data opts fuel
                        = map Send vs @ [Close]
                      \<and> (\<forall>v\<in>set vs. Error v = None))
         | Failed e \<Rightarrow>
             count_list (sendRpcRequestResponseStreamHelper RU zero w command data opts fuel)
               Close = 1
             \<and> (\<exists>vs. sendRpcRequestResponseStreamHelper RU zero w command data opts fuel
                        = map Send vs @ [Send \<lparr>Response = zero, Error = Some e\<rparr>, Close]
                      \<and> (\<forall>v\<in>set vs. Error v = None))))"
proof (intro conjI allI impI)
  let ?evs = "sendRpcRequestResponseStreamHelper RU zero w command data opts fuel"
  have ord: "orderly ?evs"
    by (rule orderly_helper)
  show once: "count_list ?evs Close \<le> 1"
    using ord by (rule orderly_count)
  show "post = []" if "?evs = pre @ Close # post" for pre post
    using ord that by (simp add: orderly_after_close)
  show "post = [Close]" if "?evs = pre @ Send u # post \<and> Error u \<noteq> None" for pre u post
    using ord that orderly_after_error [of pre u post] by simp
  show "count_list ?evs Close = 1" if "Close \<in> set ?evs"
    using once that by (rule count_one)
  show "sendRpcRequestResponseStreamHelper RU zero w command data opts m = ?evs"
    if "Close \<in> set ?evs" and "fuel \<le> m" for m
    using that by (rule helper_closed_stable)
  show "?evs = [Send \<lparr>Response = zero, Error = Some nilWshRpc\<rparr>, Close]" if "w = None"
    using that by (simp add: sendRpcRequestResponseStreamHelper_def rtnErr_def)
  show "?evs = [Send \<lparr>Response = zero, Error = Some err\<rparr>, Close]"
    if "w = Some t \<and> snd (SendComplexRequest t command data
                   (case opts of None \<Rightarrow> zeroRpcOpts | Some ro \<Rightarrow> ro)) = Some err" for t err
    using that
    by (cases "SendComplexRequest t command data
                 (case opts of None \<Rightarrow> zeroRpcOpts | Some ro \<Rightarrow> ro)")
       (simp add: sendRpcRequestResponseStreamHelper_def rtnErr_def)
  show "case loop_end RU zero t fuel h of
          Running \<Rightarrow>
            Close \<notin> set ?evs \<and> (\<forall>u. Send u \<in> set ?evs \<longrightarrow> Error u = None)
        | Done \<Rightarrow>
            count_list ?evs Close = 1
            \<and> (\<exists>vs. ?evs = map Send vs @ [Close] \<and> (\<forall>v\<in>set vs. Error v = None))
        | Failed e \<Rightarrow>
            count_list ?evs Close = 1
            \<and> (\<exists>vs. ?evs = map Send vs @ [Send \<lparr>Response = zero, Error = Some e\<rparr>, Close]
                     \<and> (\<forall>v\<in>set vs. Error v = None))"
    if "w = Some t \<and> SendComplexRequest t command data
                   (case opts of None \<Rightarrow> zeroRpcOpts | Some ro \<Rightarrow> ro) = (h, None)" for t h
  proof -
    have evs: "?evs = stream_loop RU zero t fuel h"
      using that by (simp add: sendRpcRequestResponseStreamHelper_def)
    show ?thesis
      unfolding evs by (rule loop_end_history)
  qed
qed

theorem stream_channel_protocol_witness:
  "sendRpcRequestResponseStreamHelper unmarshal_int 0 (Some (replay True [1, 2, 3])) ''cmd'' () None 4
     = [Send \<lparr>Response = 1, Error = None\<rparr>, Send \<lparr>Response = 2, Error = None\<rparr>,
        Send \<lparr>Response = 3, Error = None\<rparr>, Close]
   \<and> count_list (sendRpcRequestResponseStreamHelper unmarshal_int 0 (Some (replay True [1, 2, 3]))
        ''cmd'' () None 4) Close = 1
   \<and> sendRpcRequestResponseStreamHelper unmarshal_int 0 (Some (replay True [1, 2, 3])) ''cmd'' () None 9
       = sendRpcRequestResponseStreamHelper unmarshal_int 0 (Some (replay True [1, 2, 3])) ''cmd'' () None 4
   \<and> sendRpcRequestResponseStreamHelper unmarshal_int 0 (Some (replay False [])) ''cmd'' () None 4
       = [Send \<lparr>Response = 0, Error = Some (GoError ''send failed'')\<rparr>, Close]
   \<and> sendRpcRequestResponseStreamHelper unmarshal_int 0
        (None :: (unit, nat, nat list) WshRpc option) ''cmd'' () None 4
       = [Send \<lparr>Response = 0, Error = Some (GoError ''nil wshrpc passed to wshclient'')\<rparr>,
          Close]
   \<and> sendRpcRequestResponseStreamHelper unmarshal_int 0 (Some dropping) ''cmd'' () None 5
       = [Send \<lparr>Response = 1, Error = None\<rparr>, Send \<lparr>Response = 2, Error = None\<rparr>,
          Send \<lparr>Response = 0, Error = Some (GoError ''connection lost'')\<rparr>, Close]
   \<and> count_list (sendRpcRequestResponseStreamHelper unmarshal_int 0 (Some dropping)
        ''cmd'' () None 5) Close = 1"
proof -
  let ?run = "sendRpcRequestResponseStreamHelper unmarshal_int 0 (Some (replay True [1, 2, 3])) ''cmd'' () None"
  have run4: "?run 4 = [Send \<lparr>Response = 1, Error = None\<rparr>, Send \<lparr>Response = 2, Error = None\<rparr>,
        Send \<lparr>Response = 3, Error = None\<rparr>, Close]"
    by (simp add: sendRpcRequestResponseStreamHelper_def replay_def unmarshal_int_def
          zeroRpcOpts_def eval_nat_numeral)
  have in4: "Close \<in> set (?run 4)"
    unfolding run4 by simp
  note p = stream_channel_protocol [of unmarshal_int 0 "Some (replay True [1, 2, 3])" "''cmd''" "()" None 4]
  note closed = p [THEN conjunct2, THEN conjunct2, THEN conjunct2, THEN conjunct1, rule_format, OF in4]
  have c1: "count_list (?run 4) Close = 1"
    using closed by (rule conjunct1)
  have st: "?run 9 = ?run 4"
    using closed [THEN conjunct2, rule_format, of 9] by simp
  note q = stream_channel_protocol [of unmarshal_int 0 "Some (replay False [])" "''cmd''" "()" None 4]
  have refused: "sendRpcRequestResponseStreamHelper unmarshal_int 0 (Some (replay False [])) ''cmd'' () None 4
       = [Send \<lparr>Response = 0, Error = Some (GoError ''send failed'')\<rparr>, Close]"
    using q [THEN conjunct2, THEN conjunct2, THEN conjunct2, THEN conjunct2, THEN conjunct2,
             THEN conjunct1, rule_format, of "replay False []" "GoError ''send failed''"]
    by (simp add: replay_def)
  note r = stream_channel_protocol [of unmarshal_int 0 "None :: (unit, nat, nat list) WshRpc option"
            "''cmd''" "()" None 4]
  have nil: "sendRpcRequestResponseStreamHelper unmarshal_int 0
        (None :: (unit, nat, nat list) WshRpc option) ''cmd'' () None 4
       = [Send \<lparr>Response = 0, Error = Some (GoError ''nil wshrpc passed to wshclient'')\<rparr>,
          Close]"
    using r [THEN conjunct2, THEN conjunct2, THEN conjunct2, THEN conjunct2, THEN conjunct1]
    by (simp add: nilWshRpc_def errors_New_def)
  let ?drop = "sendRpcRequestResponseStreamHelper unmarshal_int 0 (Some dropping) ''cmd'' () None"
  have drop5: "?drop 5 = [Send \<lparr>Response = 1, Error = None\<rparr>,
          Send \<lparr>Response = 2, Error = None\<rparr>,
          Send \<lparr>Response = 0, Error = Some (GoError ''connection lost'')\<rparr>, Close]"
    by (simp add: sendRpcRequestResponseStreamHelper_def dropping_def unmarshal_int_def
          zeroRpcOpts_def eval_nat_numeral)
  have lost: "loop_end unmarshal_int 0 dropping 5 1 = Failed (GoError ''connection lost'')"
    by (simp add: dropping_def unmarshal_int_def eval_nat_numeral)
  have accepted: "Some dropping = Some dropping
      \<and> SendComplexRequest dropping ''cmd'' ()
           (case None of None \<Rightarrow> zeroRpcOpts | Some ro \<Rightarrow> ro) = (1, None)"
    by (simp add: dropping_def)
  note s = stream_channel_protocol [of unmarshal_int 0 "Some dropping" "''cmd''" "()" None 5]
  have c2: "count_list (?drop 5) Close = 1"
    using s [THEN conjunct2, THEN conjunct2, THEN conjunct2, THEN conjunct2, THEN conjunct2,
             THEN conjunct2, rule_format, OF accepted]
    unfolding lost by simp
  show ?thesis
    using run4 c1 st refused nil drop5 c2 by (intro conjI)
qed

text \<open>
  The claim as written fails for a transport whose handler never reports done and never
  fails: the loop never leaves, and the channel is never closed.
\<close>

theorem stream_channel_protocol_counterexample:
  "\<not> (\<exists>fuel. Close \<in> set (sendRpcRequestResponseStreamHelper unmarshal_int 0 (Some forever)
                              ''cmd'' () None fuel))"
  by (auto simp: sendRpcRequestResponseStreamHelper_def forever_def [THEN arg_cong, of SendComplexRequest]
        stream_loop_forever [of _ 0, simplified])

text \<open>
  Claim C2. With a transport and options whose \<open>NoResponse\<close> is set, the unary helper
  makes one call, \<open>SendCommand\<close>, and none to \<open>SendRpcRequest\<close> or to the decoder; it
  returns the zero value of \<open>T\<close> with the error of that send, so with a nil error when
  the send succeeds.
\<close>

theorem NoResponse_fire_and_forget:
  "NoResponse ro \<Longrightarrow>
     sendRpcRequestCallHelper RU zero (Some t) command data (Some ro)
       = Return ((zero, SendCommand t command data ro), [SendCommand_call])"
  by (simp add: sendRpcRequestCallHelper_def deref_def Let_def)

theorem NoResponse_fire_and_forget_witness:
  "sendRpcRequestCallHelper unmarshal_int 0 (Some (replay True [1, 2, 3])) ''cmd'' ()
       (Some \<lparr>NoResponse = True, Timeout = 0\<rparr>)
     = Return ((0, None), [SendCommand_call])
   \<and> sendRpcRequestCallHelper unmarshal_int 0 (Some (replay False [])) ''cmd'' ()
       (Some \<lparr>NoResponse = True, Timeout = 0\<rparr>)
     = Return ((0, Some (GoError ''send failed'')), [SendCommand_call])"
  using NoResponse_fire_and_forget
          [of "\<lparr>NoResponse = True, Timeout = 0\<rparr>" unmarshal_int 0 "replay True [1, 2, 3]" "''cmd''" "()"]
        NoResponse_fire_and_forget
          [of "\<lparr>NoResponse = True, Timeout = 0\<rparr>" unmarshal_int 0 "replay False []" "''cmd''" "()"]
  by (simp add: replay_def)

text \<open>
  Claim C3. With a nil transport the unary helper returns the zero value of \<open>T\<close> and the
  error \<^verbatim>\<open>nil wshrpc passed to wshclient\<close>, for every command, payload and options, nil
  options included, and calls nothing. It panics for no transport and no options: each
  pointer is checked before it is used.
\<close>

theorem nil_transport_unary:
  "sendRpcRequestCallHelper RU zero None command data opts
     = Return ((zero, Some (GoError ''nil wshrpc passed to wshclient'')), [])
   \<and> sendRpcRequestCallHelper RU zero w command data opts \<noteq> Panic"
  by (cases w; cases opts)
     (simp_all add: sendRpcRequestCallHelper_def deref_def nilWshRpc_def errors_New_def Let_def
        split: prod.splits)

theorem nil_transport_unary_witness:
  "sendRpcRequestCallHelper unmarshal_int 0 (None :: (unit, nat, nat list) WshRpc option)
       ''cmd'' () None
     = Return ((0, Some (GoError ''nil wshrpc passed to wshclient'')), [])
   \<and> sendRpcRequestCallHelper unmarshal_int 0 (Some (replay True [1, 2, 3])) ''cmd'' () None
       = Return ((42, None), [SendRpcRequest_call, ReUnmarshal_call])"
  using nil_transport_unary
          [of unmarshal_int 0 "''cmd''" "()" None "None :: (unit, nat, nat list) WshRpc option"]
  by (simp add: sendRpcRequestCallHelper_def deref_def replay_def unmarshal_int_def
        zeroRpcOpts_def)

text \<open>
  Claim C4. When the request is accepted and the handler hands out the envelopes \<open>rs\<close>,
  each of which decodes, and then reports done, the goroutine (given a round more than
  envelopes) sends exactly the decoded values of \<open>rs\<close>, in that order and each with a nil
  error, and then closes the channel: the consumer receives \<open>length rs\<close> responses and
  nothing else.
\<close>

theorem stream_delivers_in_order:
  "SendComplexRequest t command data (case opts of None \<Rightarrow> zeroRpcOpts | Some ro \<Rightarrow> ro)
     = (h, None) \<Longrightarrow>
   produces t h rs \<Longrightarrow> \<forall>r\<in>set rs. snd (RU zero r) = None \<Longrightarrow> length rs < fuel \<Longrightarrow>
     sendRpcRequestResponseStreamHelper RU zero (Some t) command data opts fuel
       = map (\<lambda>r. Send \<lparr>Response = fst (RU zero r), Error = None\<rparr>) rs @ [Close]
     \<and> delivered (sendRpcRequestResponseStreamHelper RU zero (Some t) command data opts fuel)
       = map (\<lambda>r. \<lparr>Response = fst (RU zero r), Error = None\<rparr>) rs"
proof -
  assume s: "SendComplexRequest t command data
      (case opts of None \<Rightarrow> zeroRpcOpts | Some ro \<Rightarrow> ro) = (h, None)"
    and p: "produces t h rs" and d: "\<forall>r\<in>set rs. snd (RU zero r) = None"
    and f: "length rs < fuel"
  have run: "sendRpcRequestResponseStreamHelper RU zero (Some t) command data opts fuel
       = map (\<lambda>r. Send \<lparr>Response = fst (RU zero r), Error = None\<rparr>) rs @ [Close]"
  proof -
    have "stream_loop RU zero t fuel h
        = map (\<lambda>r. Send \<lparr>Response = fst (RU zero r), Error = None\<rparr>) rs @ [Close]"
      using p d f by (rule stream_loop_produces)
    with s show ?thesis
      by (simp add: sendRpcRequestResponseStreamHelper_def)
  qed
  have "delivered (map (\<lambda>r. Send \<lparr>Response = fst (RU zero r), Error = None\<rparr>) rs @ [Close])
      = map (\<lambda>r. \<lparr>Response = fst (RU zero r), Error = None\<rparr>) rs"
    by (induction rs) simp_all
  with run show ?thesis
    by simp
qed

theorem stream_delivers_in_order_witness:
  "delivered (sendRpcRequestResponseStreamHelper unmarshal_int 0 (Some (replay True [1, 2, 3]))
       ''cmd'' () None 4)
     = [\<lparr>Response = 1, Error = None\<rparr>, \<lparr>Response = 2, Error = None\<rparr>,
        \<lparr>Response = 3, Error = None\<rparr>]
   \<and> sendRpcRequestResponseStreamHelper unmarshal_int 0 (Some (replay True [1, 2, 3]))
       ''cmd'' () None 4
     = [Send \<lparr>Response = 1, Error = None\<rparr>, Send \<lparr>Response = 2, Error = None\<rparr>,
        Send \<lparr>Response = 3, Error = None\<rparr>, Close]"
  using stream_delivers_in_order
          [where t = "replay True [1, 2, 3]" and command = "''cmd''" and data = "()"
             and opts = None and h = "[1, 2, 3]" and rs = "[1, 2, 3]" and RU = unmarshal_int
             and zero = 0 and fuel = 4]
  by (simp add: replay_def unmarshal_int_def)

text \<open>
  Claim C5. Every value sent on the channel of the stream helper either has a nil error
  and the value the decoder produced from an envelope as its response, or has an error
  and the zero value as its response. The values \<open>rtnErr\<close> sends for an error are of
  the second kind.
\<close>

theorem delivered_exactly_one:
  "(\<forall>u. Send u \<in> set (sendRpcRequestResponseStreamHelper RU zero w command data opts fuel) \<longrightarrow>
      (Error u = None \<and> (\<exists>resp. RU zero resp = (Response u, None)))
      \<or> (Error u \<noteq> None \<and> Response u = zero))
   \<and> (\<forall>u. Send u \<in> set (rtnErr zero (Some err)) \<longrightarrow> Error u \<noteq> None \<and> Response u = zero)"
proof (rule conjI; intro allI impI)
  fix u
  assume "Send u \<in> set (rtnErr zero (Some err))"
  then show "Error u \<noteq> None \<and> Response u = zero"
    by (simp add: rtnErr_def)
next
  fix u
  assume a: "Send u \<in> set (sendRpcRequestResponseStreamHelper RU zero w command data opts fuel)"
  show "(Error u = None \<and> (\<exists>resp. RU zero resp = (Response u, None)))
     \<or> (Error u \<noteq> None \<and> Response u = zero)"
  proof (cases w)
    case None
    with a show ?thesis
      by (simp add: sendRpcRequestResponseStreamHelper_def rtnErr_def)
  next
    case (Some t)
    obtain h err where s: "SendComplexRequest t command data
        (case opts of None \<Rightarrow> zeroRpcOpts | Some ro \<Rightarrow> ro) = (h, err)"
      by (cases "SendComplexRequest t command data
        (case opts of None \<Rightarrow> zeroRpcOpts | Some ro \<Rightarrow> ro)")
    show ?thesis
    proof (cases err)
      case None
      with a Some s have "Send u \<in> set (stream_loop RU zero t fuel h)"
        by (simp add: sendRpcRequestResponseStreamHelper_def)
      then show ?thesis
        by (rule stream_loop_values)
    next
      case (Some e)
      with a \<open>w = Some t\<close> s show ?thesis
        by (auto simp: sendRpcRequestResponseStreamHelper_def rtnErr_def)
    qed
  qed
qed

theorem delivered_exactly_one_witness:
  "sendRpcRequestResponseStreamHelper unmarshal_int 0 (Some (replay True [1, 0, 3]))
       ''cmd'' () None 4
     = [Send \<lparr>Response = 1, Error = None\<rparr>,
        Send \<lparr>Response = 0, Error = Some (GoError ''cannot unmarshal'')\<rparr>, Close]
   \<and> (\<exists>resp. unmarshal_int 0 resp = (1, None))"
proof -
  let ?evs = "sendRpcRequestResponseStreamHelper unmarshal_int 0 (Some (replay True [1, 0, 3]))
       ''cmd'' () None 4"
  have run: "?evs = [Send \<lparr>Response = 1, Error = None\<rparr>,
        Send \<lparr>Response = 0, Error = Some (GoError ''cannot unmarshal'')\<rparr>, Close]"
    by (simp add: sendRpcRequestResponseStreamHelper_def replay_def unmarshal_int_def
          zeroRpcOpts_def eval_nat_numeral)
  have "Send \<lparr>Response = 1, Error = None\<rparr> \<in> set ?evs"
    unfolding run by simp
  then have "\<exists>resp. unmarshal_int 0 resp = (1, None)"
    using delivered_exactly_one [of unmarshal_int 0 "Some (replay True [1, 0, 3])" "''cmd''"
            "()" None 4, THEN conjunct1, rule_format, of "\<lparr>Response = 1, Error = None\<rparr>"]
    by simp
  with run show ?thesis
    by (intro conjI)
qed

end
